theory Spec2Isabelle
  imports Main
begin

section \<open>The ESG RAG service (api.py): data model\<close>

text \<open>
  Python \<open>str\<close> values are modelled as \<open>string\<close> holding the UTF-8 encoding of the
  text. The source only compares strings for equality, tests them for emptiness and
  concatenates them; UTF-8 is injective and commutes with concatenation, so these
  operations agree with Python's on code points. Characters outside ASCII are written
  byte by byte.

  Python \<open>float\<close> scores and the metadata dictionaries are only passed through by the
  service, so they are type parameters (\<open>'s\<close> and \<open>'m\<close>); the same holds for the rows
  fetched from the table (\<open>'d\<close>) and for the FAISS vector store object (\<open>'vs\<close>).
\<close>

text \<open>
  Exceptions derived from \<open>Exception\<close>. \<open>HTTPException\<close> is FastAPI's; every other
  exception is \<open>Exception m\<close> with \<open>m\<close> the text that \<open>str(e)\<close> gives. The detail of an
  \<open>HTTPException\<close> is either a literal, or an f-string \<open>f"{prefix}{str(e)}"\<close>, kept
  symbolically as \<open>FStr prefix e\<close>.
\<close>

datatype exc =
    HTTPException (status_code: int) (detail: detail)
  | Exception string
and detail =
    Text string
  | FStr string exc

text \<open>
  A pydantic field of the request body: left out of the body, or given (for an
  \<open>Optional\<close> field the given value may be \<open>None\<close>).
\<close>

datatype 'a field = Omitted | Given 'a

text \<open>class Query(BaseModel), lines 19-23.\<close>

record Query =
  text' :: string
  top_k :: "int option"
  model :: "string option"
  language :: "string option"

definition Query_init ::
  "string \<Rightarrow> int option field \<Rightarrow> string option field \<Rightarrow> string option field \<Rightarrow> Query" where
  "Query_init t k m l =
     \<lparr> text' = t,
       top_k = (case k of Omitted \<Rightarrow> Some 3 | Given v \<Rightarrow> v),
       model = (case m of Omitted \<Rightarrow> Some ''gemini-pro'' | Given v \<Rightarrow> v),
       language = (case l of Omitted \<Rightarrow> Some ''English'' | Given v \<Rightarrow> v) \<rparr>"

text \<open>
  A document as the retriever returns it (LangChain's \<open>Document\<close>): the service reads
  \<open>doc.page_content\<close> and \<open>doc.metadata\<close>.
\<close>

datatype 'm lc_doc = LCDoc (page_content: string) (lc_metadata: 'm)

text \<open>class Document(BaseModel), lines 25-28, and class Response(BaseModel), lines 30-32.\<close>

record ('m, 's) Document =
  content :: string
  metadata :: 'm
  score :: "'s option"

record ('m, 's) Response =
  answer :: string
  sources :: "('m, 's) Document list option"

text \<open>class InsightResponse(BaseModel), lines 34-35.\<close>

datatype InsightResponse = InsightResponse (insights: string)

text \<open>The dictionaries returned by /health, /refresh and /similar-documents.\<close>

datatype health_result =
  HealthResult (health_status: string) (vector_store_loaded: bool)

datatype refresh_result =
  RefreshResult (refresh_status: string) (message: string) (document_count: nat)

datatype ('m, 's) similar_entry =
  SimilarEntry (entry_content: string) (entry_metadata: 'm) (entry_score: 's)

datatype ('m, 's) similar_result =
  SimilarResult (similar_status: string) (similar_documents: "('m, 's) similar_entry list")

text \<open>The uploaded file of /analyze-image: its client-side name (may be absent) and its bytes.\<close>

record UploadFile =
  filename :: "string option"
  file_content :: string

section \<open>The collaborators imported from the vector module\<close>

text \<open>
  The functions imported at lines 10-17 are not part of the sources at hand. They are
  parameters of the model: each one either raises (\<open>Inl e\<close>) or returns (\<open>Inr v\<close>).
  \<open>generate_response_with_rag\<close> returns the \<open>.content\<close> of the model's reply.
\<close>

record ('d, 'vs, 'm, 's) vector_module =
  fetch_data_from_table :: "exc + 'd list"
  create_vector_store_from_sql_data :: "'d list \<Rightarrow> string \<Rightarrow> exc + 'vs"
  retrieve_relevant_documents_with_scores ::
    "string \<Rightarrow> 'vs \<Rightarrow> int option \<Rightarrow> exc + ('m lc_doc list \<times> 's list)"
  generate_response_with_rag :: "string \<Rightarrow> 'vs \<Rightarrow> string option \<Rightarrow> exc + string"
  analyze_infographic :: "string \<Rightarrow> exc + string"

text \<open>The calls made to these collaborators, with their arguments, in the order made.\<close>

datatype ('d, 'vs) call =
    Fetch
  | CreateStore "'d list" string
  | Retrieve string 'vs "int option"
  | Generate string 'vs "string option"
  | Analyze string

section \<open>The state of the process\<close>

text \<open>
  \<open>vector_store\<close> is the module-level global of line 46 (\<open>None\<close> until a store is built),
  \<open>files\<close> the files on disk (path to bytes), and \<open>calls\<close> the log of collaborator calls
  made so far (an observer's record, not a variable of the program).
\<close>

record ('d, 'vs) state =
  vector_store :: "'vs option"
  files :: "string \<rightharpoonup> string"
  calls :: "('d, 'vs) call list"

definition log_call :: "('d, 'vs) call \<Rightarrow> ('d, 'vs) state \<Rightarrow> ('d, 'vs) state" where
  "log_call c st = st\<lparr>calls := calls st @ [c]\<rparr>"

definition UPLOAD_DIR :: string where
  "UPLOAD_DIR = ''uploads''"

definition embeddings_model_name :: string where
  "embeddings_model_name = ''textembedding-gecko@latest''"

section \<open>Start-up, dependency and health probe\<close>

text \<open>lifespan, lines 48-65 (the part before \<open>yield\<close>): every exception is printed and dropped.\<close>

definition lifespan_startup ::
  "('d, 'vs, 'm, 's) vector_module \<Rightarrow> ('d, 'vs) state \<Rightarrow> ('d, 'vs) state" where
  "lifespan_startup env st =
     (let st1 = log_call Fetch st in
      case fetch_data_from_table env of
        Inl e \<Rightarrow> st1
      | Inr documents \<Rightarrow>
          if documents = [] then st1
          else
            (let st2 = log_call (CreateStore documents embeddings_model_name) st1 in
             case create_vector_store_from_sql_data env documents embeddings_model_name of
               Inl e \<Rightarrow> st2
             | Inr vs \<Rightarrow> st2\<lparr>vector_store := Some vs\<rparr>))"

text \<open>get_vector_store, lines 83-86.\<close>

definition get_vector_store :: "('d, 'vs) state \<Rightarrow> exc + 'vs" where
  "get_vector_store st =
     (case vector_store st of
        None \<Rightarrow> Inl (HTTPException 503 (Text ''Vector store is not available''))
      | Some vs \<Rightarrow> Inr vs)"

text \<open>health_check, lines 88-96.\<close>

definition health_check :: "('d, 'vs) state \<Rightarrow> health_result \<times> ('d, 'vs) state" where
  "health_check st = (HealthResult ''healthy'' (vector_store st \<noteq> None), st)"

section \<open>Refresh\<close>

text \<open>The body of the \<open>try\<close> of refresh_vector_store, lines 105-115.\<close>

definition refresh_try ::
  "('d, 'vs, 'm, 's) vector_module \<Rightarrow> ('d, 'vs) state \<Rightarrow>
     (exc + refresh_result) \<times> ('d, 'vs) state" where
  "refresh_try env st =
     (let st1 = log_call Fetch st in
      case fetch_data_from_table env of
        Inl e \<Rightarrow> (Inl e, st1)
      | Inr documents \<Rightarrow>
          if documents = [] then
            (Inl (HTTPException 404 (Text ''No data found in table'')), st1)
          else
            (let st2 = log_call (CreateStore documents embeddings_model_name) st1 in
             case create_vector_store_from_sql_data env documents embeddings_model_name of
               Inl e \<Rightarrow> (Inl e, st2)
             | Inr vs \<Rightarrow>
                 (Inr (RefreshResult ''success'' ''Vector store refreshed successfully''
                        (length documents)),
                  st2\<lparr>vector_store := Some vs\<rparr>)))"

text \<open>
  refresh_vector_store, lines 98-117: \<open>except Exception as e\<close> catches whatever the body
  raised, the \<open>HTTPException\<close> of line 107 included, and raises status 500.
\<close>

definition refresh_vector_store ::
  "('d, 'vs, 'm, 's) vector_module \<Rightarrow> ('d, 'vs) state \<Rightarrow>
     (exc + refresh_result) \<times> ('d, 'vs) state" where
  "refresh_vector_store env st =
     (case refresh_try env st of
        (Inl e, st') \<Rightarrow>
          (Inl (HTTPException 500 (FStr ''Error refreshing vector store: '' e)), st')
      | (Inr r, st') \<Rightarrow> (Inr r, st'))"

section \<open>Query and similar documents\<close>

text \<open>The language tag of line 128: "Francais" written with c-cedilla (U+00E7, bytes C3 A7).\<close>

definition language_Francais :: string where
  "language_Francais = ''Fran'' @ [CHR 0xC3, CHR 0xA7] @ ''ais''"

text \<open>The instruction of line 129 (French) and of line 131 (Arabic), as UTF-8.\<close>

definition instruction_Francais :: string where
  "instruction_Francais =
     ''R'' @ [CHR 0xC3, CHR 0xA9] @ ''ponds toujours en fran'' @ [CHR 0xC3, CHR 0xA7] @
     ''ais, quelle que soit la langue de la question.''"

definition instruction_Arabic :: string where
  "instruction_Arabic =
     [CHR 0xD8, CHR 0xA3, CHR 0xD8, CHR 0xAC, CHR 0xD8, CHR 0xA8] @ '' '' @
     [CHR 0xD8, CHR 0xAF, CHR 0xD8, CHR 0xA7, CHR 0xD8, CHR 0xA6, CHR 0xD9, CHR 0x85,
      CHR 0xD9, CHR 0x8B, CHR 0xD8, CHR 0xA7] @ '' '' @
     [CHR 0xD8, CHR 0xA8, CHR 0xD8, CHR 0xA7, CHR 0xD9, CHR 0x84, CHR 0xD9, CHR 0x84,
      CHR 0xD8, CHR 0xBA, CHR 0xD8, CHR 0xA9] @ '' '' @
     [CHR 0xD8, CHR 0xA7, CHR 0xD9, CHR 0x84, CHR 0xD8, CHR 0xB9, CHR 0xD8, CHR 0xB1,
      CHR 0xD8, CHR 0xA8, CHR 0xD9, CHR 0x8A, CHR 0xD8, CHR 0xA9, CHR 0xD8, CHR 0x8C] @ '' '' @
     [CHR 0xD8, CHR 0xA8, CHR 0xD8, CHR 0xBA, CHR 0xD8, CHR 0xB6] @ '' '' @
     [CHR 0xD8, CHR 0xA7, CHR 0xD9, CHR 0x84, CHR 0xD9, CHR 0x86, CHR 0xD8, CHR 0xB8,
      CHR 0xD8, CHR 0xB1] @ '' '' @
     [CHR 0xD8, CHR 0xB9, CHR 0xD9, CHR 0x86] @ '' '' @
     [CHR 0xD9, CHR 0x84, CHR 0xD8, CHR 0xBA, CHR 0xD8, CHR 0xA9] @ '' '' @
     [CHR 0xD8, CHR 0xA7, CHR 0xD9, CHR 0x84, CHR 0xD8, CHR 0xB3, CHR 0xD8, CHR 0xA4,
      CHR 0xD8, CHR 0xA7, CHR 0xD9, CHR 0x84] @ ''.''"

text \<open>Lines 127-131: the instruction selected by the language tag.\<close>

definition system_instruction :: "Query \<Rightarrow> string" where
  "system_instruction query =
     (if language query = Some language_Francais then instruction_Francais
      else if language query = Some ''Arabic'' then instruction_Arabic
      else [])"

text \<open>Lines 133-135: the text handed to the generator (the separator is two newlines).\<close>

definition modified_query :: "Query \<Rightarrow> string" where
  "modified_query query =
     (if system_instruction query \<noteq> []
      then system_instruction query @ [CHR 0x0A, CHR 0x0A] @ text' query
      else text' query)"

text \<open>
  The loops of lines 139-145 and 162-168: \<open>for i, doc in enumerate(relevant_docs)\<close>
  appends one entry made of \<open>doc\<close> and \<open>scores[i]\<close>; \<open>scores[i]\<close> raises IndexError when
  \<open>scores\<close> is too short.
\<close>

fun enumerate_loop ::
  "('m lc_doc \<Rightarrow> 's \<Rightarrow> 'r) \<Rightarrow> nat \<Rightarrow> 'm lc_doc list \<Rightarrow> 's list \<Rightarrow> 'r list \<Rightarrow> exc + 'r list" where
  "enumerate_loop mk i [] scores acc = Inr acc"
| "enumerate_loop mk i (doc # docs) scores acc =
     (if i < length scores
      then enumerate_loop mk (Suc i) docs scores (acc @ [mk doc (scores ! i)])
      else Inl (Exception ''list index out of range''))"

definition make_source :: "'m lc_doc \<Rightarrow> 's \<Rightarrow> ('m, 's) Document" where
  "make_source doc sc =
     \<lparr> content = page_content doc, metadata = lc_metadata doc, score = Some sc \<rparr>"

definition make_entry :: "'m lc_doc \<Rightarrow> 's \<Rightarrow> ('m, 's) similar_entry" where
  "make_entry doc sc = SimilarEntry (page_content doc) (lc_metadata doc) sc"

text \<open>The body of the \<open>try\<close> of query_rag, lines 125-150.\<close>

definition query_rag_try ::
  "('d, 'vs, 'm, 's) vector_module \<Rightarrow> Query \<Rightarrow> 'vs \<Rightarrow> ('d, 'vs) state \<Rightarrow>
     (exc + ('m, 's) Response) \<times> ('d, 'vs) state" where
  "query_rag_try env query vs st =
     (let st1 = log_call (Retrieve (text' query) vs (top_k query)) st in
      case retrieve_relevant_documents_with_scores env (text' query) vs (top_k query) of
        Inl e \<Rightarrow> (Inl e, st1)
      | Inr (relevant_docs, scores) \<Rightarrow>
          (let st2 = log_call (Generate (modified_query query) vs (model query)) st1 in
           case generate_response_with_rag env (modified_query query) vs (model query) of
             Inl e \<Rightarrow> (Inl e, st2)
           | Inr response_content \<Rightarrow>
               (case enumerate_loop make_source 0 relevant_docs scores [] of
                  Inl e \<Rightarrow> (Inl e, st2)
                | Inr srcs \<Rightarrow> (Inr \<lparr> answer = response_content, sources = Some srcs \<rparr>, st2))))"

text \<open>query_rag, lines 119-152, called with the store \<open>vs\<close> that the dependency gave.\<close>

definition query_rag ::
  "('d, 'vs, 'm, 's) vector_module \<Rightarrow> Query \<Rightarrow> 'vs \<Rightarrow> ('d, 'vs) state \<Rightarrow>
     (exc + ('m, 's) Response) \<times> ('d, 'vs) state" where
  "query_rag env query vs st =
     (case query_rag_try env query vs st of
        (Inl e, st') \<Rightarrow> (Inl (HTTPException 500 (FStr ''Error generating response: '' e)), st')
      | (Inr r, st') \<Rightarrow> (Inr r, st'))"

text \<open>get_similar_documents, lines 154-172.\<close>

definition get_similar_documents_try ::
  "('d, 'vs, 'm, 's) vector_module \<Rightarrow> Query \<Rightarrow> 'vs \<Rightarrow> ('d, 'vs) state \<Rightarrow>
     (exc + ('m, 's) similar_result) \<times> ('d, 'vs) state" where
  "get_similar_documents_try env query vs st =
     (let st1 = log_call (Retrieve (text' query) vs (top_k query)) st in
      case retrieve_relevant_documents_with_scores env (text' query) vs (top_k query) of
        Inl e \<Rightarrow> (Inl e, st1)
      | Inr (relevant_docs, scores) \<Rightarrow>
          (case enumerate_loop make_entry 0 relevant_docs scores [] of
             Inl e \<Rightarrow> (Inl e, st1)
           | Inr result \<Rightarrow> (Inr (SimilarResult ''success'' result), st1)))"

definition get_similar_documents ::
  "('d, 'vs, 'm, 's) vector_module \<Rightarrow> Query \<Rightarrow> 'vs \<Rightarrow> ('d, 'vs) state \<Rightarrow>
     (exc + ('m, 's) similar_result) \<times> ('d, 'vs) state" where
  "get_similar_documents env query vs st =
     (case get_similar_documents_try env query vs st of
        (Inl e, st') \<Rightarrow> (Inl (HTTPException 500 (FStr ''Error searching documents: '' e)), st')
      | (Inr r, st') \<Rightarrow> (Inr r, st'))"

text \<open>
  The routes /query and /similar-documents: \<open>vs=Depends(get_vector_store)\<close> makes FastAPI
  run \<open>get_vector_store\<close> first; when it raises, that exception is the response and the
  handler is not called.
\<close>

definition route_query ::
  "('d, 'vs, 'm, 's) vector_module \<Rightarrow> Query \<Rightarrow> ('d, 'vs) state \<Rightarrow>
     (exc + ('m, 's) Response) \<times> ('d, 'vs) state" where
  "route_query env query st =
     (case get_vector_store st of
        Inl e \<Rightarrow> (Inl e, st)
      | Inr vs \<Rightarrow> query_rag env query vs st)"

definition route_similar_documents ::
  "('d, 'vs, 'm, 's) vector_module \<Rightarrow> Query \<Rightarrow> ('d, 'vs) state \<Rightarrow>
     (exc + ('m, 's) similar_result) \<times> ('d, 'vs) state" where
  "route_similar_documents env query st =
     (case get_vector_store st of
        Inl e \<Rightarrow> (Inl e, st)
      | Inr vs \<Rightarrow> get_similar_documents env query vs st)"

section \<open>Image analysis\<close>

text \<open>
  \<open>os.path.splitext(p)[1]\<close> on POSIX: the extension starts at the last dot of the last
  path component, provided that, leading dots of the component skipped, a character
  is left before that dot.
\<close>

definition splitext_ext :: "string \<Rightarrow> string" where
  "splitext_ext p =
     (let base = rev (takeWhile (\<lambda>c. c \<noteq> CHR ''/'') (rev p));
          ext = rev (takeWhile (\<lambda>c. c \<noteq> CHR ''.'') (rev base));
          stem = rev (drop (Suc (length ext)) (rev base))
      in if CHR ''.'' \<in> set base \<and> dropWhile (\<lambda>c. c = CHR ''.'') stem \<noteq> []
         then CHR ''.'' # ext else [])"

text \<open>\<open>os.path.join(a, b)\<close> on POSIX, for two components.\<close>

definition os_path_join :: "string \<Rightarrow> string \<Rightarrow> string" where
  "os_path_join a b =
     (if b \<noteq> [] \<and> hd b = CHR ''/'' then b
      else if a = [] \<or> last a = CHR ''/'' then a @ b
      else a @ ''/'' @ b)"

text \<open>\<open>os.unlink(path)\<close>: removes the file, or raises when there is none.\<close>

definition os_unlink :: "string \<Rightarrow> ('d, 'vs) state \<Rightarrow> exc + ('d, 'vs) state" where
  "os_unlink path st =
     (case files st path of
        None \<Rightarrow> Inl (Exception ''No such file or directory'')
      | Some bytes \<Rightarrow> Inr (st\<lparr>files := (files st)(path := None)\<rparr>))"

text \<open>
  The body of the \<open>try\<close> of analyze_image, lines 180-195. \<open>uuid4\<close> is the text of the
  identifier that \<open>uuid.uuid4()\<close> draws for this request. Opening and writing the file
  are taken to succeed. The inner \<open>try\<close> of lines 190-193 prints and drops a failure of
  \<open>os.unlink\<close>.
\<close>

definition analyze_image_try ::
  "('d, 'vs, 'm, 's) vector_module \<Rightarrow> UploadFile \<Rightarrow> string \<Rightarrow> ('d, 'vs) state \<Rightarrow>
     (exc + InsightResponse) \<times> ('d, 'vs) state" where
  "analyze_image_try env file uuid4 st =
     (case filename file of
        None \<Rightarrow>
          (Inl (Exception ''expected str, bytes or os.PathLike object, not NoneType''), st)
      | Some name \<Rightarrow>
          (let file_extension = splitext_ext name;
               file_path = os_path_join UPLOAD_DIR (uuid4 @ file_extension);
               st1 = st\<lparr>files := (files st)(file_path \<mapsto> file_content file)\<rparr>;
               st2 = log_call (Analyze file_path) st1
           in case analyze_infographic env file_path of
                Inl e \<Rightarrow> (Inl e, st2)
              | Inr insights_text \<Rightarrow>
                  (Inr (InsightResponse insights_text),
                   (case os_unlink file_path st2 of
                      Inl cleanup_error \<Rightarrow> st2
                    | Inr st3 \<Rightarrow> st3))))"

text \<open>analyze_image, lines 174-197.\<close>

definition analyze_image ::
  "('d, 'vs, 'm, 's) vector_module \<Rightarrow> UploadFile \<Rightarrow> string \<Rightarrow> ('d, 'vs) state \<Rightarrow>
     (exc + InsightResponse) \<times> ('d, 'vs) state" where
  "analyze_image env file uuid4 st =
     (case analyze_image_try env file uuid4 st of
        (Inl e, st') \<Rightarrow> (Inl (HTTPException 500 (FStr ''Error analyzing image: '' e)), st')
      | (Inr r, st') \<Rightarrow> (Inr r, st'))"

section \<open>Refresh, statement by statement\<close>



section \<open>Auxiliary definitions for the statements\<close>

text \<open>Recognises the retrieval calls in a call log.\<close>

fun is_Retrieve :: "('d, 'vs) call \<Rightarrow> bool" where
  "is_Retrieve (Retrieve t vs k) = True"
| "is_Retrieve c = False"

text \<open>
  The grounding context in the words of the specification (section 4.3): the retrieved
  passages concatenated in the order provided. The handlers of api.py compute no such
  value; it is here to be compared with what they pass to the generator.
\<close>

definition spec_grounding_context :: "'m lc_doc list \<Rightarrow> string" where
  "spec_grounding_context retrieved = concat (map page_content retrieved)"

text \<open>
  Stand-ins for the vector module, for the concrete instances below: rows and stores are
  lists of passages, the builder keeps the rows, the retriever returns the first \<open>top_k\<close>
  passages (four when \<open>top_k\<close> is \<open>None\<close>) with their lengths as metadata and scores, the
  generator echoes its prompt; the outcome of the fetch and of the vision call are
  given.
\<close>

definition example_retrieve ::
  "string \<Rightarrow> string list \<Rightarrow> int option \<Rightarrow> exc + (nat lc_doc list \<times> nat list)" where
  "example_retrieve t vs k =
     (let hits = take (case k of None \<Rightarrow> 4 | Some n \<Rightarrow> nat n) vs
      in Inr (map (\<lambda>c. LCDoc c (length c)) hits, map length hits))"

definition example_module ::
  "exc + string list \<Rightarrow> exc + string \<Rightarrow> (string, string list, nat, nat) vector_module" where
  "example_module rows vision =
     \<lparr> fetch_data_from_table = rows,
       create_vector_store_from_sql_data = (\<lambda>documents name. Inr documents),
       retrieve_relevant_documents_with_scores = example_retrieve,
       generate_response_with_rag = (\<lambda>prompt vs m. Inr (''Answer: '' @ prompt)),
       analyze_infographic = (\<lambda>path. vision) \<rparr>"

definition example_state :: "string list option \<Rightarrow> (string, string list) state" where
  "example_state vs = \<lparr> vector_store = vs, files = Map.empty, calls = [] \<rparr>"

section \<open>Shared lemmas\<close>

lemmas example_defs =
  example_module_def example_state_def example_retrieve_def log_call_def
  embeddings_model_name_def

text \<open>The enumerate loop succeeds exactly when there is a score for every document.\<close>

lemma enumerate_loop_eq:
  "enumerate_loop mk i docs scores acc =
     (if docs = [] \<or> i + length docs \<le> length scores
      then Inr (acc @ map (\<lambda>(d, s). mk d s) (zip docs (drop i scores)))
      else Inl (Exception ''list index out of range''))"
proof (induction docs arbitrary: i acc)
  case Nil
  show ?case by simp
next
  case (Cons doc docs)
  show ?case
  proof (cases "i < length scores")
    case True
    then have d: "drop i scores = scores ! i # drop (Suc i) scores"
      by (simp add: Cons_nth_drop_Suc)
    show ?thesis using True Cons.IH [of "Suc i" "acc @ [mk doc (scores ! i)]"]
      by (auto simp: d)
  next
    case False
    then show ?thesis by simp
  qed
qed

lemma instruction_nonempty:
  "instruction_Francais \<noteq> []" "instruction_Arabic \<noteq> []"
  by (simp_all add: instruction_Francais_def instruction_Arabic_def)

lemma Francais_not_Arabic:
  "language_Francais \<noteq> ''Arabic''" "''Arabic'' \<noteq> language_Francais"
  by (simp_all add: language_Francais_def)

text \<open>The text built by lines 127-135, by language tag.\<close>

lemma modified_query_cases:
  "(language query = Some language_Francais \<longrightarrow>
      modified_query query = instruction_Francais @ [CHR 0x0A, CHR 0x0A] @ text' query) \<and>
   (language query = Some ''Arabic'' \<longrightarrow>
      modified_query query = instruction_Arabic @ [CHR 0x0A, CHR 0x0A] @ text' query) \<and>
   (language query \<noteq> Some language_Francais \<and> language query \<noteq> Some ''Arabic'' \<longrightarrow>
      modified_query query = text' query)"
  by (simp add: modified_query_def system_instruction_def instruction_nonempty
        Francais_not_Arabic)

lemma refresh_no_data:
  assumes "fetch_data_from_table env = Inr []"
  shows "refresh_vector_store env st =
           (Inl (HTTPException 500 (FStr ''Error refreshing vector store: ''
                  (HTTPException 404 (Text ''No data found in table'')))),
            log_call Fetch st)"
  using assms by (simp add: refresh_vector_store_def refresh_try_def)

lemma startup_empty_corpus:
  "vector_store (lifespan_startup (example_module (Inr []) v) (example_state None)) = None"
  by (simp add: lifespan_startup_def example_defs)

text \<open>What query_rag does once the retriever has answered, and when it raises.\<close>

lemma query_rag_retrieved:
  assumes "retrieve_relevant_documents_with_scores env (text' query) vs (top_k query)
             = Inr (docs, scores)"
  shows "snd (query_rag env query vs st) =
           st\<lparr>calls := calls st @ [Retrieve (text' query) vs (top_k query),
                                  Generate (modified_query query) vs (model query)]\<rparr>"
    and "fst (query_rag env query vs st) = Inr r \<Longrightarrow>
           sources r = Some (map (\<lambda>(d, s). make_source d s) (zip docs scores)) \<and>
           generate_response_with_rag env (modified_query query) vs (model query)
             = Inr (answer r)"
  using assms
  by (auto simp: query_rag_def query_rag_try_def log_call_def enumerate_loop_eq Let_def
           split: sum.splits if_splits)

lemma query_rag_retrieve_fails:
  assumes "retrieve_relevant_documents_with_scores env (text' query) vs (top_k query) = Inl e"
  shows "query_rag env query vs st =
           (Inl (HTTPException 500 (FStr ''Error generating response: '' e)),
            st\<lparr>calls := calls st @ [Retrieve (text' query) vs (top_k query)]\<rparr>)"
  using assms by (simp add: query_rag_def query_rag_try_def log_call_def)

lemma example_retrieve_two:
  "retrieve_relevant_documents_with_scores (example_module (Inr []) (Inr ''ok''))
     (text' (Query_init ''q'' (Given (Some 2)) Omitted (Given (Some language_Francais))))
     [''alpha'', ''beta'', ''gamma'']
     (top_k (Query_init ''q'' (Given (Some 2)) Omitted (Given (Some language_Francais))))
   = Inr ([LCDoc ''alpha'' 5, LCDoc ''beta'' 4], [5, 4])"
  by (simp add: example_defs Query_init_def)

text \<open>The two outcomes of analyze_image once the upload has a name.\<close>

lemma analyze_image_vision_fails:
  assumes "filename file = Some name"
    and "analyze_infographic env (os_path_join UPLOAD_DIR (uuid4 @ splitext_ext name)) = Inl e"
  shows "analyze_image env file uuid4 st =
           (Inl (HTTPException 500 (FStr ''Error analyzing image: '' e)),
            log_call (Analyze (os_path_join UPLOAD_DIR (uuid4 @ splitext_ext name)))
              (st\<lparr>files := (files st)(os_path_join UPLOAD_DIR (uuid4 @ splitext_ext name)
                                        \<mapsto> file_content file)\<rparr>))"
  using assms by (simp add: analyze_image_def analyze_image_try_def Let_def)

lemma analyze_image_vision_succeeds:
  assumes "filename file = Some name"
    and "analyze_infographic env (os_path_join UPLOAD_DIR (uuid4 @ splitext_ext name)) = Inr t"
  shows "fst (analyze_image env file uuid4 st) = Inr (InsightResponse t)"
    and "files (snd (analyze_image env file uuid4 st))
           (os_path_join UPLOAD_DIR (uuid4 @ splitext_ext name)) = None"
  using assms
  by (simp_all add: analyze_image_def analyze_image_try_def Let_def os_unlink_def log_call_def)

text \<open>The outcomes of a refresh; what a query returns depends on the state through the store only.\<close>

lemma refresh_cases:
  "(\<exists>e. fst (refresh_vector_store env st) = Inl e \<and>
        vector_store (snd (refresh_vector_store env st)) = vector_store st) \<or>
   (\<exists>documents vs.
        fetch_data_from_table env = Inr documents \<and> documents \<noteq> [] \<and>
        create_vector_store_from_sql_data env documents embeddings_model_name = Inr vs \<and>
        fst (refresh_vector_store env st) =
          Inr (RefreshResult ''success'' ''Vector store refreshed successfully''
                 (length documents)) \<and>
        vector_store (snd (refresh_vector_store env st)) = Some vs)"
  by (auto simp: refresh_vector_store_def refresh_try_def log_call_def Let_def
           split: sum.splits)

lemma refresh_files: "files (snd (refresh_vector_store env st)) = files st"
  by (auto simp: refresh_vector_store_def refresh_try_def log_call_def Let_def
           split: sum.splits)

lemma route_query_store_only:
  assumes "vector_store st1 = vector_store st2"
  shows "fst (route_query env query st1) = fst (route_query env query st2)"
  using assms
  by (auto simp: route_query_def get_vector_store_def query_rag_def query_rag_try_def
        log_call_def Let_def split: option.splits sum.splits prod.splits)






section \<open>Refresh with an empty source\<close>

text \<open>
  C1. The claim: when the document source yields no data, the refresh fails with status
  404, distinguishable from the 500 of any other failure. The code raises the 404 at
  line 107 inside the \<open>try\<close> whose \<open>except Exception\<close> (line 116) catches it: what the
  request reports is status 500, with the 404 only inside the detail text. Evaluated
  here on a source that returns an empty list.
\<close>

theorem refresh_empty_source_reports_500:
  "fst (refresh_vector_store (example_module (Inr []) (Inr ''ok'')) (example_state None)) =
     Inl (HTTPException 500 (FStr ''Error refreshing vector store: ''
            (HTTPException 404 (Text ''No data found in table''))))"
  by (simp add: refresh_no_data example_module_def)

section \<open>The language instruction\<close>

text \<open>
  C3, as stated: with language "French" the instruction is prepended to the query text
  before the generation call. It is not: the tag that line 128 tests for is the French
  word written with c-cedilla, so for a request tagged "French" query_rag calls the
  generator with the bare query text, and the answer is the generator's reply to it.
\<close>

theorem language_French_not_prefixed:
  "calls (snd (query_rag (example_module (Inr []) (Inr ''ok''))
                 (Query_init ''q'' Omitted Omitted (Given (Some ''French'')))
                 [''alpha'', ''beta''] (example_state (Some [''alpha'', ''beta''])))) =
     [Retrieve ''q'' [''alpha'', ''beta''] (Some 3),
      Generate ''q'' [''alpha'', ''beta''] (Some ''gemini-pro'')] \<and>
   map_sum id answer
     (fst (query_rag (example_module (Inr []) (Inr ''ok''))
             (Query_init ''q'' Omitted Omitted (Given (Some ''French'')))
             [''alpha'', ''beta''] (example_state (Some [''alpha'', ''beta''])))) =
     Inr ''Answer: q''"
  by (simp add: query_rag_def query_rag_try_def example_defs Query_init_def
        modified_query_def system_instruction_def language_Francais_def make_source_def)

text \<open>
  C3, amended: for every query request whose retrieval returns, the generation call of
  query_rag receives, as its query text, the fixed French instruction, a blank line and
  the query text when the language tag is the French word "Francais" written with
  c-cedilla, the fixed Arabic instruction, a blank line and the query text when the tag
  is "Arabic", and the query text unmodified for every other tag ("French" and the
  default "English" included) and for no tag; the answer of the response is what the
  generator returned on that text.
\<close>

theorem generation_prompt_by_language:
  assumes "retrieve_relevant_documents_with_scores env (text' query) vs (top_k query)
             = Inr (docs, scores)"
  shows "(language query = Some language_Francais \<longrightarrow>
            calls (snd (query_rag env query vs st)) =
              calls st @
              [Retrieve (text' query) vs (top_k query),
               Generate (instruction_Francais @ [CHR 0x0A, CHR 0x0A] @ text' query) vs
                 (model query)] \<and>
            (\<forall>r. fst (query_rag env query vs st) = Inr r \<longrightarrow>
               generate_response_with_rag env
                 (instruction_Francais @ [CHR 0x0A, CHR 0x0A] @ text' query) vs (model query)
               = Inr (answer r))) \<and>
         (language query = Some ''Arabic'' \<longrightarrow>
            calls (snd (query_rag env query vs st)) =
              calls st @
              [Retrieve (text' query) vs (top_k query),
               Generate (instruction_Arabic @ [CHR 0x0A, CHR 0x0A] @ text' query) vs
                 (model query)] \<and>
            (\<forall>r. fst (query_rag env query vs st) = Inr r \<longrightarrow>
               generate_response_with_rag env
                 (instruction_Arabic @ [CHR 0x0A, CHR 0x0A] @ text' query) vs (model query)
               = Inr (answer r))) \<and>
         (language query \<noteq> Some language_Francais \<and> language query \<noteq> Some ''Arabic'' \<longrightarrow>
            calls (snd (query_rag env query vs st)) =
              calls st @
              [Retrieve (text' query) vs (top_k query),
               Generate (text' query) vs (model query)] \<and>
            (\<forall>r. fst (query_rag env query vs st) = Inr r \<longrightarrow>
               generate_response_with_rag env (text' query) vs (model query)
               = Inr (answer r)))"
proof -
  have log: "calls (snd (query_rag env query vs st)) =
      calls st @ [Retrieve (text' query) vs (top_k query),
                  Generate (modified_query query) vs (model query)]"
    using query_rag_retrieved(1) [OF assms, of st] by simp
  have reply: "generate_response_with_rag env (modified_query query) vs (model query)
                 = Inr (answer r)"
    if "fst (query_rag env query vs st) = Inr r" for r
    using query_rag_retrieved(2) [OF assms that] by simp
  show ?thesis
  proof (intro conjI impI allI)
    assume fr: "language query = Some language_Francais"
    then have mq: "modified_query query =
        instruction_Francais @ [CHR 0x0A, CHR 0x0A] @ text' query"
      using modified_query_cases [of query] by simp
    show "calls (snd (query_rag env query vs st)) =
        calls st @ [Retrieve (text' query) vs (top_k query),
          Generate (instruction_Francais @ [CHR 0x0A, CHR 0x0A] @ text' query) vs
            (model query)]"
      using log by (simp only: mq)
    fix r assume "fst (query_rag env query vs st) = Inr r"
    from reply [OF this]
    show "generate_response_with_rag env
            (instruction_Francais @ [CHR 0x0A, CHR 0x0A] @ text' query) vs (model query)
          = Inr (answer r)"
      by (simp only: mq)
  next
    assume ar: "language query = Some ''Arabic''"
    then have mq: "modified_query query =
        instruction_Arabic @ [CHR 0x0A, CHR 0x0A] @ text' query"
      using modified_query_cases [of query] by simp
    show "calls (snd (query_rag env query vs st)) =
        calls st @ [Retrieve (text' query) vs (top_k query),
          Generate (instruction_Arabic @ [CHR 0x0A, CHR 0x0A] @ text' query) vs
            (model query)]"
      using log by (simp only: mq)
    fix r assume "fst (query_rag env query vs st) = Inr r"
    from reply [OF this]
    show "generate_response_with_rag env
            (instruction_Arabic @ [CHR 0x0A, CHR 0x0A] @ text' query) vs (model query)
          = Inr (answer r)"
      by (simp only: mq)
  next
    assume other: "language query \<noteq> Some language_Francais \<and>
                   language query \<noteq> Some ''Arabic''"
    then have mq: "modified_query query = text' query"
      using modified_query_cases [of query] by simp
    show "calls (snd (query_rag env query vs st)) =
        calls st @ [Retrieve (text' query) vs (top_k query),
          Generate (text' query) vs (model query)]"
      using log by (simp only: mq)
    fix r assume "fst (query_rag env query vs st) = Inr r"
    from reply [OF this]
    show "generate_response_with_rag env (text' query) vs (model query) = Inr (answer r)"
      by (simp only: mq)
  qed
qed

text \<open>
  The instances: one store, the query text "q", and the four tags "Francais" (with
  c-cedilla), "Arabic", the default "English" and \<open>None\<close>.
\<close>

theorem generation_prompt_by_language_witness:
  "calls (snd (query_rag (example_module (Inr []) (Inr ''ok''))
                 (Query_init ''q'' Omitted Omitted (Given (Some language_Francais)))
                 [''alpha''] (example_state (Some [''alpha''])))) =
     [Retrieve ''q'' [''alpha''] (Some 3),
      Generate (instruction_Francais @ [CHR 0x0A, CHR 0x0A] @ ''q'') [''alpha'']
        (Some ''gemini-pro'')] \<and>
   calls (snd (query_rag (example_module (Inr []) (Inr ''ok''))
                 (Query_init ''q'' Omitted Omitted (Given (Some ''Arabic'')))
                 [''alpha''] (example_state (Some [''alpha''])))) =
     [Retrieve ''q'' [''alpha''] (Some 3),
      Generate (instruction_Arabic @ [CHR 0x0A, CHR 0x0A] @ ''q'') [''alpha'']
        (Some ''gemini-pro'')] \<and>
   calls (snd (query_rag (example_module (Inr []) (Inr ''ok''))
                 (Query_init ''q'' Omitted Omitted Omitted)
                 [''alpha''] (example_state (Some [''alpha''])))) =
     [Retrieve ''q'' [''alpha''] (Some 3),
      Generate ''q'' [''alpha''] (Some ''gemini-pro'')] \<and>
   calls (snd (query_rag (example_module (Inr []) (Inr ''ok''))
                 (Query_init ''q'' Omitted Omitted (Given None))
                 [''alpha''] (example_state (Some [''alpha''])))) =
     [Retrieve ''q'' [''alpha''] (Some 3),
      Generate ''q'' [''alpha''] (Some ''gemini-pro'')]"
proof -
  let ?env = "example_module (Inr []) (Inr ''ok'')"
  let ?st = "example_state (Some [''alpha''])"
  have retr: "retrieve_relevant_documents_with_scores ?env
                (text' (Query_init ''q'' Omitted Omitted l)) [''alpha'']
                (top_k (Query_init ''q'' Omitted Omitted l))
              = Inr ([LCDoc ''alpha'' 5], [5])" for l
    by (simp add: example_defs Query_init_def)
  have tags:
    "language (Query_init ''q'' Omitted Omitted (Given (Some language_Francais)))
       = Some language_Francais"
    "language (Query_init ''q'' Omitted Omitted (Given (Some ''Arabic''))) = Some ''Arabic''"
    "language (Query_init ''q'' Omitted Omitted Omitted) \<noteq> Some language_Francais \<and>
     language (Query_init ''q'' Omitted Omitted Omitted) \<noteq> Some ''Arabic''"
    "language (Query_init ''q'' Omitted Omitted (Given None)) \<noteq> Some language_Francais \<and>
     language (Query_init ''q'' Omitted Omitted (Given None)) \<noteq> Some ''Arabic''"
    by (simp_all add: Query_init_def language_Francais_def)
  from generation_prompt_by_language [OF retr, of "Given (Some language_Francais)" ?st]
    generation_prompt_by_language [OF retr, of "Given (Some ''Arabic'')" ?st]
    generation_prompt_by_language [OF retr, of Omitted ?st]
    generation_prompt_by_language [OF retr, of "Given None" ?st]
    tags
  show ?thesis by (simp add: example_state_def Query_init_def)
qed

section \<open>Defaults of the query request\<close>

text \<open>
  C6, as stated: the defaults are model "default" and language "none". The defaults of
  lines 22-23 are other strings.
\<close>

theorem Query_defaults_differ:
  "model (Query_init ''q'' Omitted Omitted Omitted) \<noteq> Some ''default'' \<and>
   language (Query_init ''q'' Omitted Omitted Omitted) \<noteq> Some ''none''"
  by (simp add: Query_init_def)

text \<open>
  C6, amended: a request that omits these fields has top_k 3, model "gemini-pro" and
  language "English", and for that default language no instruction is injected: the
  query text goes to the generator as it is.
\<close>

theorem Query_defaults:
  "Query_init t Omitted Omitted Omitted =
     \<lparr> text' = t, top_k = Some 3, model = Some ''gemini-pro'', language = Some ''English'' \<rparr> \<and>
   system_instruction (Query_init t Omitted Omitted Omitted) = [] \<and>
   modified_query (Query_init t Omitted Omitted Omitted) = t"
  by (simp add: Query_init_def system_instruction_def modified_query_def language_Francais_def)

section \<open>Requests without a vector store\<close>

text \<open>
  C7. While the global store is \<open>None\<close>, a /query or /similar-documents request is
  answered with status 503 by the dependency, and the state, call log included, is the
  one before the request: the retriever is not reached.
\<close>

theorem no_store_rejected_503:
  assumes "vector_store st = None"
  shows "route_query env query st =
           (Inl (HTTPException 503 (Text ''Vector store is not available'')), st) \<and>
         route_similar_documents env query st =
           (Inl (HTTPException 503 (Text ''Vector store is not available'')), st)"
  using assms by (simp add: route_query_def route_similar_documents_def get_vector_store_def)

text \<open>The instance: start-up on an empty table builds no store, then a query arrives.\<close>

theorem no_store_rejected_503_witness:
  "vector_store (lifespan_startup (example_module (Inr []) (Inr ''ok'')) (example_state None)) = None \<and>
   route_query (example_module (Inr []) (Inr ''ok'')) (Query_init ''q'' Omitted Omitted Omitted)
       (lifespan_startup (example_module (Inr []) (Inr ''ok'')) (example_state None)) =
     (Inl (HTTPException 503 (Text ''Vector store is not available'')),
      lifespan_startup (example_module (Inr []) (Inr ''ok'')) (example_state None)) \<and>
   calls (snd (route_query (example_module (Inr []) (Inr ''ok''))
            (Query_init ''q'' Omitted Omitted Omitted)
            (lifespan_startup (example_module (Inr []) (Inr ''ok'')) (example_state None)))) = [Fetch]"
  using no_store_rejected_503 [OF startup_empty_corpus [of "Inr ''ok''"],
      of "example_module (Inr []) (Inr ''ok'')" "Query_init ''q'' Omitted Omitted Omitted"]
    startup_empty_corpus [of "Inr ''ok''"]
  by (simp add: lifespan_startup_def example_defs)

section \<open>The health probe\<close>

text \<open>
  C9. The health probe reports whether a store is loaded, and leaves the whole state as
  it was (the store reference and the call log: no build is triggered), however many
  times it runs.
\<close>

theorem health_check_frame:
  "vector_store_loaded (fst (health_check st)) = (\<exists>vs. vector_store st = Some vs) \<and>
   health_status (fst (health_check st)) = ''healthy'' \<and>
   snd (health_check st) = st \<and>
   ((\<lambda>s. snd (health_check s)) ^^ n) st = st"
proof -
  have "((\<lambda>s. snd (health_check s)) ^^ n) st = st"
    by (induction n) (simp_all add: health_check_def)
  then show ?thesis by (auto simp: health_check_def)
qed

section \<open>What the generator receives\<close>

text \<open>
  C2, as stated: the grounding context passed to the generation call is assembled from
  the retrieved scored results. In query_rag the results of line 125 are not passed on:
  line 137 hands the generator the query text, the store and the model. Two requests
  that differ in top_k retrieve different passages (their concatenations are "alpha" and
  "alphabeta"), and the generation call is the same.
\<close>

theorem generation_call_ignores_retrieved:
  "calls (snd (query_rag (example_module (Inr []) (Inr ''ok''))
                 (Query_init ''q'' (Given (Some 1)) Omitted Omitted) [''alpha'', ''beta'']
                 (example_state (Some [''alpha'', ''beta''])))) =
     [Retrieve ''q'' [''alpha'', ''beta''] (Some 1),
      Generate ''q'' [''alpha'', ''beta''] (Some ''gemini-pro'')] \<and>
   calls (snd (query_rag (example_module (Inr []) (Inr ''ok''))
                 (Query_init ''q'' (Given (Some 2)) Omitted Omitted) [''alpha'', ''beta'']
                 (example_state (Some [''alpha'', ''beta''])))) =
     [Retrieve ''q'' [''alpha'', ''beta''] (Some 2),
      Generate ''q'' [''alpha'', ''beta''] (Some ''gemini-pro'')] \<and>
   map_sum id (spec_grounding_context \<circ> fst)
     (retrieve_relevant_documents_with_scores (example_module (Inr []) (Inr ''ok''))
        ''q'' [''alpha'', ''beta''] (Some 1)) = Inr ''alpha'' \<and>
   map_sum id (spec_grounding_context \<circ> fst)
     (retrieve_relevant_documents_with_scores (example_module (Inr []) (Inr ''ok''))
        ''q'' [''alpha'', ''beta''] (Some 2)) = Inr ''alphabeta''"
  by (simp add: query_rag_def query_rag_try_def example_defs Query_init_def
        modified_query_def system_instruction_def language_Francais_def
        make_source_def spec_grounding_context_def)

text \<open>
  C2, amended: for every query request whose retrieval returns, exactly one generation
  call is made, after the retrieval, and it receives the query text (with the language
  instruction when there is one), the vector store and the model selector, not the
  retrieved results; the retrieved scored results are returned as the sources of the
  response, in the order the retriever produced them.
\<close>

theorem query_rag_generation_call:
  assumes "retrieve_relevant_documents_with_scores env (text' query) vs (top_k query)
             = Inr (docs, scores)"
  shows "calls (snd (query_rag env query vs st)) =
           calls st @ [Retrieve (text' query) vs (top_k query),
                       Generate (modified_query query) vs (model query)] \<and>
         (\<forall>r. fst (query_rag env query vs st) = Inr r \<longrightarrow>
            sources r = Some (map (\<lambda>(d, s). make_source d s) (zip docs scores)))"
  using query_rag_retrieved [OF assms] by simp

theorem query_rag_generation_call_witness:
  "calls (snd (query_rag (example_module (Inr []) (Inr ''ok''))
                 (Query_init ''q'' (Given (Some 2)) Omitted (Given (Some language_Francais)))
                 [''alpha'', ''beta'', ''gamma'']
                 (example_state (Some [''alpha'', ''beta'', ''gamma''])))) =
     [Retrieve ''q'' [''alpha'', ''beta'', ''gamma''] (Some 2),
      Generate (instruction_Francais @ [CHR 0x0A, CHR 0x0A] @ ''q'')
        [''alpha'', ''beta'', ''gamma''] (Some ''gemini-pro'')] \<and>
   map_sum id sources
     (fst (query_rag (example_module (Inr []) (Inr ''ok''))
             (Query_init ''q'' (Given (Some 2)) Omitted (Given (Some language_Francais)))
             [''alpha'', ''beta'', ''gamma'']
             (example_state (Some [''alpha'', ''beta'', ''gamma''])))) =
     Inr (Some [\<lparr> content = ''alpha'', metadata = 5, score = Some 5 \<rparr>,
                \<lparr> content = ''beta'', metadata = 4, score = Some 4 \<rparr>])"
proof -
  let ?env = "example_module (Inr []) (Inr ''ok'')"
  let ?q = "Query_init ''q'' (Given (Some 2)) Omitted (Given (Some language_Francais))"
  let ?vs = "[''alpha'', ''beta'', ''gamma'']"
  let ?st = "example_state (Some ?vs)"
  have ok: "fst (query_rag ?env ?q ?vs ?st) =
              Inr \<lparr> answer = ''Answer: '' @ modified_query ?q,
                    sources = Some [\<lparr> content = ''alpha'', metadata = 5, score = Some 5 \<rparr>,
                                    \<lparr> content = ''beta'', metadata = 4, score = Some 4 \<rparr>] \<rparr>"
    by (simp add: query_rag_def query_rag_try_def example_defs Query_init_def make_source_def)
  have mq: "modified_query ?q = instruction_Francais @ [CHR 0x0A, CHR 0x0A] @ ''q''"
    by (simp add: modified_query_def system_instruction_def Query_init_def instruction_nonempty)
  from query_rag_generation_call [OF example_retrieve_two, of ?st] ok mq
  show ?thesis by (simp add: example_state_def Query_init_def)
qed

section \<open>The language tag and the retrieval\<close>

text \<open>
  C4. Two query requests on the same state that agree on the query text and on top_k
  make the same retrieval call, and when both are answered their sources (documents and
  scores) are the same, whatever their language tags (and models) are.
\<close>

theorem language_does_not_alter_retrieval:
  assumes "text' q1 = text' q2" and "top_k q1 = top_k q2"
  shows "filter is_Retrieve (calls (snd (route_query env q1 st))) =
           filter is_Retrieve (calls (snd (route_query env q2 st))) \<and>
         (\<forall>r1 r2. fst (route_query env q1 st) = Inr r1 \<longrightarrow>
                  fst (route_query env q2 st) = Inr r2 \<longrightarrow> sources r1 = sources r2)"
proof (cases "vector_store st")
  case None
  then show ?thesis by (simp add: route_query_def get_vector_store_def)
next
  case (Some vs)
  then have r: "route_query env q1 st = query_rag env q1 vs st"
    "route_query env q2 st = query_rag env q2 vs st"
    by (simp_all add: route_query_def get_vector_store_def)
  show ?thesis
  proof (cases "retrieve_relevant_documents_with_scores env (text' q2) vs (top_k q2)")
    case (Inl e)
    then show ?thesis using assms r
      by (simp add: query_rag_retrieve_fails)
  next
    case (Inr p)
    obtain docs scores where p: "p = (docs, scores)" by (cases p)
    have r2: "retrieve_relevant_documents_with_scores env (text' q2) vs (top_k q2)
                = Inr (docs, scores)"
      using Inr p by simp
    then have r1: "retrieve_relevant_documents_with_scores env (text' q1) vs (top_k q1)
                = Inr (docs, scores)"
      using assms by simp
    show ?thesis
      using query_rag_retrieved [OF r1, of st] query_rag_retrieved [OF r2, of st] r assms
      by simp
  qed
qed

theorem language_does_not_alter_retrieval_witness:
  "map_sum id sources
     (fst (route_query (example_module (Inr []) (Inr ''ok''))
             (Query_init ''q'' (Given (Some 2)) Omitted (Given (Some language_Francais)))
             (example_state (Some [''alpha'', ''beta'', ''gamma''])))) =
   map_sum id sources
     (fst (route_query (example_module (Inr []) (Inr ''ok''))
             (Query_init ''q'' (Given (Some 2)) Omitted Omitted)
             (example_state (Some [''alpha'', ''beta'', ''gamma''])))) \<and>
   map_sum id sources
     (fst (route_query (example_module (Inr []) (Inr ''ok''))
             (Query_init ''q'' (Given (Some 2)) Omitted Omitted)
             (example_state (Some [''alpha'', ''beta'', ''gamma''])))) =
     Inr (Some [\<lparr> content = ''alpha'', metadata = 5, score = Some 5 \<rparr>,
                \<lparr> content = ''beta'', metadata = 4, score = Some 4 \<rparr>])"
proof -
  let ?env = "example_module (Inr []) (Inr ''ok'')"
  let ?q1 = "Query_init ''q'' (Given (Some 2)) Omitted (Given (Some language_Francais))"
  let ?q2 = "Query_init ''q'' (Given (Some 2)) Omitted Omitted"
  let ?st = "example_state (Some [''alpha'', ''beta'', ''gamma''])"
  let ?srcs = "Some [\<lparr> content = ''alpha'', metadata = 5::nat, score = Some (5::nat) \<rparr>,
                     \<lparr> content = ''beta'', metadata = 4, score = Some 4 \<rparr>]"
  have t: "text' ?q1 = text' ?q2" and k: "top_k ?q1 = top_k ?q2"
    by (simp_all add: Query_init_def)
  have ok1: "fst (route_query ?env ?q1 ?st) =
               Inr \<lparr> answer = ''Answer: '' @ modified_query ?q1, sources = ?srcs \<rparr>"
    by (simp add: route_query_def get_vector_store_def query_rag_def query_rag_try_def
          example_defs Query_init_def make_source_def)
  have ok2: "fst (route_query ?env ?q2 ?st) =
               Inr \<lparr> answer = ''Answer: '' @ modified_query ?q2, sources = ?srcs \<rparr>"
    by (simp add: route_query_def get_vector_store_def query_rag_def query_rag_try_def
          example_defs Query_init_def make_source_def)
  from language_does_not_alter_retrieval [OF t k, of ?env ?st] ok1 ok2
  show ?thesis by simp
qed

section \<open>The temporary file of the image analysis\<close>

text \<open>
  C5. The claim: the temporary file is released on all exit paths, the one where the
  vision call fails included. The \<open>os.unlink\<close> of line 191 follows the vision call inside
  the same \<open>try\<close>, with no \<open>finally\<close>: when \<open>analyze_infographic\<close> raises, control goes to
  line 196 and the file stays. Evaluated here on a failing vision call (the file is
  still there after the request) and, for contrast, on one that succeeds (it is gone).
\<close>

theorem analyze_image_failure_keeps_file:
  "fst (analyze_image
          (example_module (Inr []) (Inl (Exception ''vision provider unavailable'')))
          \<lparr> filename = Some ''chart.png'', file_content = ''PNG'' \<rparr> ''u1''
          (example_state None)) =
     Inl (HTTPException 500 (FStr ''Error analyzing image: ''
            (Exception ''vision provider unavailable''))) \<and>
   files (snd (analyze_image
          (example_module (Inr []) (Inl (Exception ''vision provider unavailable'')))
          \<lparr> filename = Some ''chart.png'', file_content = ''PNG'' \<rparr> ''u1''
          (example_state None))) ''uploads/u1.png'' = Some ''PNG'' \<and>
   files (snd (analyze_image (example_module (Inr []) (Inr ''two bars''))
          \<lparr> filename = Some ''chart.png'', file_content = ''PNG'' \<rparr> ''u1''
          (example_state None))) ''uploads/u1.png'' = None"
  by (simp add: analyze_image_def analyze_image_try_def os_path_join_def UPLOAD_DIR_def
        splitext_ext_def os_unlink_def example_defs Let_def)

section \<open>A refresh that fails\<close>

text \<open>
  C10. When a refresh fails, whatever raised, the published store is the one before the
  request, so the dependency and a later query give what they gave before; and when
  the published store has changed, the fetch returned rows, the build of those rows
  returned the store now published, and the refresh reported success.
\<close>

theorem refresh_failure_keeps_store:
  "(\<forall>e. fst (refresh_vector_store env st) = Inl e \<longrightarrow>
      vector_store (snd (refresh_vector_store env st)) = vector_store st \<and>
      get_vector_store (snd (refresh_vector_store env st)) = get_vector_store st \<and>
      fst (route_query env query (snd (refresh_vector_store env st)))
        = fst (route_query env query st)) \<and>
   (vector_store (snd (refresh_vector_store env st)) \<noteq> vector_store st \<longrightarrow>
      (\<exists>documents vs.
         fetch_data_from_table env = Inr documents \<and> documents \<noteq> [] \<and>
         create_vector_store_from_sql_data env documents embeddings_model_name = Inr vs \<and>
         vector_store (snd (refresh_vector_store env st)) = Some vs \<and>
         fst (refresh_vector_store env st) =
           Inr (RefreshResult ''success'' ''Vector store refreshed successfully''
                  (length documents))))"
proof -
  have keep: "vector_store (snd (refresh_vector_store env st)) = vector_store st"
    if "fst (refresh_vector_store env st) = Inl e" for e
    using refresh_cases [of env st] that by auto
  have "get_vector_store (snd (refresh_vector_store env st)) = get_vector_store st"
    if "fst (refresh_vector_store env st) = Inl e" for e
    using keep [OF that] by (simp add: get_vector_store_def)
  moreover have "fst (route_query env query (snd (refresh_vector_store env st)))
        = fst (route_query env query st)"
    if "fst (refresh_vector_store env st) = Inl e" for e
    using keep [OF that] by (rule route_query_store_only)
  moreover have "\<exists>documents vs.
         fetch_data_from_table env = Inr documents \<and> documents \<noteq> [] \<and>
         create_vector_store_from_sql_data env documents embeddings_model_name = Inr vs \<and>
         vector_store (snd (refresh_vector_store env st)) = Some vs \<and>
         fst (refresh_vector_store env st) =
           Inr (RefreshResult ''success'' ''Vector store refreshed successfully''
                  (length documents))"
    if "vector_store (snd (refresh_vector_store env st)) \<noteq> vector_store st"
    using refresh_cases [of env st] that by auto
  ultimately show ?thesis using keep by blast
qed

theorem refresh_failure_keeps_store_witness:
  "fst (refresh_vector_store
          (example_module (Inl (Exception ''database unreachable'')) (Inr ''ok''))
          (example_state (Some [''old'']))) =
     Inl (HTTPException 500 (FStr ''Error refreshing vector store: ''
            (Exception ''database unreachable''))) \<and>
   vector_store (snd (refresh_vector_store
          (example_module (Inl (Exception ''database unreachable'')) (Inr ''ok''))
          (example_state (Some [''old''])))) = Some [''old''] \<and>
   vector_store (snd (refresh_vector_store (example_module (Inr [''new'']) (Inr ''ok''))
          (example_state (Some [''old''])))) = Some [''new''] \<and>
   fst (refresh_vector_store (example_module (Inr [''new'']) (Inr ''ok''))
          (example_state (Some [''old'']))) =
     Inr (RefreshResult ''success'' ''Vector store refreshed successfully'' 1)"
proof -
  let ?bad = "example_module (Inl (Exception ''database unreachable'')) (Inr ''ok'')"
  let ?good = "example_module (Inr [''new'']) (Inr ''ok'')"
  let ?st = "example_state (Some [''old''])"
  have failed: "fst (refresh_vector_store ?bad ?st) =
      Inl (HTTPException 500 (FStr ''Error refreshing vector store: ''
             (Exception ''database unreachable'')))"
    by (simp add: refresh_vector_store_def refresh_try_def example_defs)
  have changed: "vector_store (snd (refresh_vector_store ?good ?st)) \<noteq> vector_store ?st"
    by (simp add: refresh_vector_store_def refresh_try_def example_defs)
  from refresh_failure_keeps_store [of ?bad ?st "Query_init ''q'' Omitted Omitted Omitted"]
    failed
  have kept: "vector_store (snd (refresh_vector_store ?bad ?st)) = vector_store ?st"
    by simp
  from refresh_failure_keeps_store [of ?good ?st "Query_init ''q'' Omitted Omitted Omitted"]
    changed
  obtain documents vs where
    "fetch_data_from_table ?good = Inr documents"
    "create_vector_store_from_sql_data ?good documents embeddings_model_name = Inr vs"
    "vector_store (snd (refresh_vector_store ?good ?st)) = Some vs"
    "fst (refresh_vector_store ?good ?st) =
       Inr (RefreshResult ''success'' ''Vector store refreshed successfully''
              (length documents))"
    by blast
  then have "vector_store (snd (refresh_vector_store ?good ?st)) = Some [''new'']"
    "fst (refresh_vector_store ?good ?st) =
       Inr (RefreshResult ''success'' ''Vector store refreshed successfully'' 1)"
    by (auto simp: example_module_def)
  with failed kept show ?thesis by (simp add: example_state_def)
qed

section \<open>Publication of the new store\<close>



end
